theory Spec2Isabelle
  imports Complex_Main
begin

section \<open>Python values\<close>

text \<open>
  The payloads handled by \<^verbatim>\<open>pypowerwall/__init__.py\<close> and \<^verbatim>\<open>proxy/server.py\<close> are
  decoded JSON documents: \<^verbatim>\<open>None\<close>, booleans, numbers, strings, lists and dictionaries.
  A dictionary is an association list read with \<open>map_of\<close>. Python's \<^verbatim>\<open>float\<close> is
  idealised as \<open>real\<close>: every finite double is a real number, and the arithmetic
  below is the exact one, without rounding.
\<close>

datatype pyval =
    PNone
  | PBool bool
  | PInt int
  | PFloat real
  | PStr string
  | PList "pyval list"
  | PDict "(string \<times> pyval) list"

datatype py_error = TypeError | KeyError | ValueError | AttributeError | AuthError

text \<open>Python's truth value of an object, as \<^verbatim>\<open>or\<close>, \<^verbatim>\<open>not\<close> and \<^verbatim>\<open>if\<close> read it.\<close>

fun truthy :: "pyval \<Rightarrow> bool" where
  "truthy PNone = False"
| "truthy (PBool b) = b"
| "truthy (PInt i) = (i \<noteq> 0)"
| "truthy (PFloat r) = (r \<noteq> 0)"
| "truthy (PStr s) = (s \<noteq> [])"
| "truthy (PList xs) = (xs \<noteq> [])"
| "truthy (PDict d) = (d \<noteq> [])"

text \<open>\<^verbatim>\<open>a or b\<close>\<close>

definition py_or :: "pyval \<Rightarrow> pyval \<Rightarrow> pyval" where
  "py_or a b = (if truthy a then a else b)"

text \<open>\<^verbatim>\<open>payload[key]\<close> with a string key: only a dictionary can be subscripted so.\<close>

fun py_getitem :: "pyval \<Rightarrow> string \<Rightarrow> py_error + pyval" where
  "py_getitem (PDict d) k = (case map_of d k of None \<Rightarrow> Inl KeyError | Some v \<Rightarrow> Inr v)"
| "py_getitem _ k = Inl TypeError"

fun is_prefix :: "string \<Rightarrow> string \<Rightarrow> bool" where
  "is_prefix [] ys = True"
| "is_prefix (x # xs) [] = False"
| "is_prefix (x # xs) (y # ys) = (x = y \<and> is_prefix xs ys)"

fun substring :: "string \<Rightarrow> string \<Rightarrow> bool" where
  "substring k [] = (k = [])"
| "substring k (c # cs) = (is_prefix k (c # cs) \<or> substring k cs)"

text \<open>\<^verbatim>\<open>key in payload\<close> with a string key.\<close>

fun py_contains :: "string \<Rightarrow> pyval \<Rightarrow> py_error + bool" where
  "py_contains k (PDict d) = Inr (k \<in> set (map fst d))"
| "py_contains k (PStr s) = Inr (substring k s)"
| "py_contains k (PList xs) = Inr (PStr k \<in> set xs)"
| "py_contains k _ = Inl TypeError"

text \<open>
  Library functions of Python that the code calls and whose text output is not modelled:
  \<^verbatim>\<open>json.dumps(v)\<close>, \<^verbatim>\<open>json.dumps(v, indent=4, sort_keys=True)\<close> and \<^verbatim>\<open>float(s)\<close> on a
  string (\<open>None\<close> where Python raises \<^verbatim>\<open>ValueError\<close>), \<^verbatim>\<open>os.path.expanduser\<close> and
  \<^verbatim>\<open>str(datetime.timedelta(seconds=n))\<close>.
\<close>

record pylib =
  json_dumps :: "pyval \<Rightarrow> string"
  json_dumps_indent :: "pyval \<Rightarrow> string"
  float_of_str :: "string \<Rightarrow> real option"
  expanduser :: "string \<Rightarrow> string"
  str_timedelta :: "int \<Rightarrow> string"

text \<open>\<^verbatim>\<open>float(v)\<close>\<close>

fun py_float :: "pylib \<Rightarrow> pyval \<Rightarrow> py_error + real" where
  "py_float lib (PInt i) = Inr (real_of_int i)"
| "py_float lib (PFloat r) = Inr r"
| "py_float lib (PBool b) = Inr (if b then 1 else 0)"
| "py_float lib (PStr s) = (case float_of_str lib s of None \<Rightarrow> Inl ValueError | Some r \<Rightarrow> Inr r)"
| "py_float lib _ = Inl TypeError"

text \<open>The number a numeric object stands for in arithmetic; \<open>None\<close> where \<^verbatim>\<open>/\<close> raises.\<close>

fun num_of :: "pyval \<Rightarrow> real option" where
  "num_of (PInt i) = Some (real_of_int i)"
| "num_of (PFloat r) = Some r"
| "num_of (PBool b) = Some (if b then 1 else 0)"
| "num_of _ = None"

text \<open>\<^verbatim>\<open>(level / 0.95) - (5 / 0.95)\<close>\<close>

definition app_scale :: "real \<Rightarrow> real" where
  "app_scale r = (r / 0.95) - (5 / 0.95)"

definition py_scale :: "pyval \<Rightarrow> py_error + pyval" where
  "py_scale v = (case num_of v of None \<Rightarrow> Inl TypeError | Some r \<Rightarrow> Inr (PFloat (app_scale r)))"

section \<open>The facade: class Powerwall\<close>

text \<open>
  The facade reaches its backend only through the methods of \<^verbatim>\<open>self.client\<close>
  (\<^verbatim>\<open>PyPowerwallCloud\<close> or \<^verbatim>\<open>PyPowerwallLocal\<close>, both outside the two source files).
  The client is a state \<open>'c\<close> of its own and a table of its methods, each returning
  its result and the client's next state.
\<close>

record 'c client =
  c_poll :: "'c \<Rightarrow> string \<Rightarrow> bool \<Rightarrow> bool \<Rightarrow> bool \<Rightarrow> pyval \<times> 'c"
  c_fetchpower :: "'c \<Rightarrow> string \<Rightarrow> bool \<Rightarrow> pyval \<times> 'c"
  c_vitals :: "'c \<Rightarrow> pyval \<times> 'c"
  c_power :: "'c \<Rightarrow> pyval \<times> 'c"
  c_get_time_remaining :: "'c \<Rightarrow> pyval \<times> 'c"
  c_authenticate :: "'c \<Rightarrow> py_error option \<times> 'c"

text \<open>
  \<^verbatim>\<open>Powerwall.poll(api, jsonformat, raw, recursive, force)\<close>: the client is called as
  \<^verbatim>\<open>self.client.poll(api, force, recursive, raw)\<close>.
\<close>

definition poll ::
  "pylib \<Rightarrow> 'c client \<Rightarrow> 'c \<Rightarrow> string \<Rightarrow> bool \<Rightarrow> bool \<Rightarrow> bool \<Rightarrow> bool \<Rightarrow> pyval \<times> 'c" where
  "poll lib cl s api jsonformat raw recursive force =
     (case c_poll cl s api force recursive raw of
        (payload, s') \<Rightarrow>
          if jsonformat then (PStr (json_dumps lib payload), s') else (payload, s'))"

text \<open>\<^verbatim>\<open>self.poll(api)\<close> with every default.\<close>

abbreviation poll_default :: "pylib \<Rightarrow> 'c client \<Rightarrow> 'c \<Rightarrow> string \<Rightarrow> pyval \<times> 'c" where
  "poll_default lib cl s api \<equiv> poll lib cl s api False False False False"

subsection \<open>level and get_reserve\<close>

definition level_of :: "pyval \<Rightarrow> bool \<Rightarrow> py_error + pyval" where
  "level_of payload scale =
     (if payload = PNone then Inr PNone
      else case py_contains ''percentage'' payload of
          Inl e \<Rightarrow> Inl e
        | Inr False \<Rightarrow> Inr PNone
        | Inr True \<Rightarrow>
            (case py_getitem payload ''percentage'' of
               Inl e \<Rightarrow> Inl e
             | Inr lvl \<Rightarrow> if scale then py_scale lvl else Inr lvl))"

definition level ::
  "pylib \<Rightarrow> 'c client \<Rightarrow> 'c \<Rightarrow> bool \<Rightarrow> (py_error + pyval) \<times> 'c" where
  "level lib cl s scale =
     (case poll_default lib cl s ''/api/system_status/soe'' of
        (payload, s') \<Rightarrow> (level_of payload scale, s'))"

definition get_reserve_of :: "pylib \<Rightarrow> pyval \<Rightarrow> bool \<Rightarrow> py_error + pyval" where
  "get_reserve_of lib data scale =
     (if data = PNone then Inr PNone
      else case py_contains ''backup_reserve_percent'' data of
          Inl e \<Rightarrow> Inl e
        | Inr False \<Rightarrow> Inr PNone
        | Inr True \<Rightarrow>
            (case py_getitem data ''backup_reserve_percent'' of
               Inl e \<Rightarrow> Inl e
             | Inr raw \<Rightarrow>
                 (case py_float lib raw of
                    Inl e \<Rightarrow> Inl e
                  | Inr percent \<Rightarrow>
                      Inr (PFloat (if scale then app_scale percent else percent)))))"

definition get_reserve ::
  "pylib \<Rightarrow> 'c client \<Rightarrow> 'c \<Rightarrow> bool \<Rightarrow> (py_error + pyval) \<times> 'c" where
  "get_reserve lib cl s scale =
     (case poll_default lib cl s ''/api/operation'' of
        (data, s') \<Rightarrow> (get_reserve_of lib data scale, s'))"

subsection \<open>grid_status\<close>

text \<open>The messages \<^verbatim>\<open>log.debug\<close> receives, by what they report.\<close>

datatype log_event =
    Unparsed_grid_status pyval string
  | Unparsed_site_name pyval

text \<open>The \<^verbatim>\<open>gridmap\<close> dictionary of \<^verbatim>\<open>grid_status\<close>, each row with its string and its number.\<close>

definition gridmap :: "(string \<times> string \<times> int) list" where
  "gridmap =
     [(''SystemGridConnected'', ''UP'', 1),
      (''SystemIslandedActive'', ''DOWN'', 0),
      (''SystemTransitionToGrid'', ''SYNCING'', -1),
      (''SystemTransitionToIsland'', ''SYNCING'', -1),
      (''SystemIslandedReady'', ''SYNCING'', -1),
      (''SystemMicroGridFaulted'', ''DOWN'', 0),
      (''SystemWaitForUser'', ''DOWN'', 0)]"

text \<open>
  \<^verbatim>\<open>gridmap.get(grid_status, {}).get(type)\<close> for \<open>type\<close> one of \<^verbatim>\<open>"string"\<close> and
  \<^verbatim>\<open>"numeric"\<close>. A list or a dictionary is not hashable and cannot be looked up.
\<close>

fun gridmap_get :: "pyval \<Rightarrow> string \<Rightarrow> py_error + pyval" where
  "gridmap_get (PStr g) ty =
     (case map_of gridmap g of
        None \<Rightarrow> Inr PNone
      | Some (str, n) \<Rightarrow> Inr (if ty = ''string'' then PStr str else PInt n))"
| "gridmap_get (PList xs) ty = Inl TypeError"
| "gridmap_get (PDict d) ty = Inl TypeError"
| "gridmap_get _ ty = Inr PNone"

text \<open>
  The body of \<^verbatim>\<open>grid_status\<close> after the poll: the result, and what was logged.
\<close>

definition grid_status_of ::
  "pylib \<Rightarrow> pyval \<Rightarrow> string \<Rightarrow> py_error + (pyval \<times> log_event list)" where
  "grid_status_of lib payload ty =
     (if ty = ''json'' then Inr (PStr (json_dumps_indent lib payload), [])
      else case py_getitem payload ''grid_status'' of
          Inl e \<Rightarrow> Inl e
        | Inr gs \<Rightarrow>
            (case gridmap_get gs ty of
               Inl e \<Rightarrow> Inl e
             | Inr status \<Rightarrow>
                 Inr (status, if status = PNone then [Unparsed_grid_status payload ty] else [])))"

definition grid_status ::
  "pylib \<Rightarrow> 'c client \<Rightarrow> 'c \<Rightarrow> string \<Rightarrow> (py_error + (pyval \<times> log_event list)) \<times> 'c" where
  "grid_status lib cl s ty =
     (if ty \<notin> set [''json'', ''string'', ''numeric''] then (Inl ValueError, s)
      else case poll_default lib cl s ''/api/system_status/grid_status'' of
          (payload, s') \<Rightarrow> (grid_status_of lib payload ty, s'))"

subsection \<open>site_name\<close>

definition site_name_of :: "pyval \<Rightarrow> pyval \<times> log_event list" where
  "site_name_of payload =
     (case py_getitem payload ''site_name'' of
        Inl e \<Rightarrow> (PNone, [Unparsed_site_name payload])
      | Inr v \<Rightarrow> (v, []))"

definition site_name ::
  "pylib \<Rightarrow> 'c client \<Rightarrow> 'c \<Rightarrow> (pyval \<times> log_event list) \<times> 'c" where
  "site_name lib cl s =
     (case poll_default lib cl s ''/api/site_info/site_name'' of
        (payload, s') \<Rightarrow> (site_name_of payload, s'))"

subsection \<open>Power data and its aliases\<close>

definition site :: "'c client \<Rightarrow> 'c \<Rightarrow> bool \<Rightarrow> pyval \<times> 'c" where
  "site cl s verbose = c_fetchpower cl s ''site'' verbose"

definition solar :: "'c client \<Rightarrow> 'c \<Rightarrow> bool \<Rightarrow> pyval \<times> 'c" where
  "solar cl s verbose = c_fetchpower cl s ''solar'' verbose"

definition battery :: "'c client \<Rightarrow> 'c \<Rightarrow> bool \<Rightarrow> pyval \<times> 'c" where
  "battery cl s verbose = c_fetchpower cl s ''battery'' verbose"

definition load :: "'c client \<Rightarrow> 'c \<Rightarrow> bool \<Rightarrow> pyval \<times> 'c" where
  "load cl s verbose = c_fetchpower cl s ''load'' verbose"

definition grid :: "'c client \<Rightarrow> 'c \<Rightarrow> bool \<Rightarrow> pyval \<times> 'c" where
  "grid cl s verbose = site cl s verbose"

definition home :: "'c client \<Rightarrow> 'c \<Rightarrow> bool \<Rightarrow> pyval \<times> 'c" where
  "home cl s verbose = load cl s verbose"

subsection \<open>Construction: the choice of the backend\<close>

text \<open>
  The two client classes, each with the arguments \<^verbatim>\<open>__init__\<close> passes to it:
  \<^verbatim>\<open>PyPowerwallCloud(email, pwcacheexpire, timeout, siteid, authpath)\<close> and
  \<^verbatim>\<open>PyPowerwallLocal(host, password, email, timezone, timeout, pwcacheexpire,
  poolmaxsize, authmode, cachefile)\<close>.
\<close>

datatype client_class =
    PyPowerwallCloud string int int "string option" string
  | PyPowerwallLocal string string string string int int int string string

text \<open>
  The attributes of a \<^verbatim>\<open>Powerwall\<close> object. The client object is its class with the
  arguments it was built from, and its own state \<open>'c\<close>; both are absent until the
  constructor has chosen the class.
\<close>

record 'c powerwall =
  cachefile :: string
  host :: string
  password :: string
  email :: string
  timezone :: string
  timeout :: int
  poolmaxsize :: int
  auth :: "(string \<times> string) list"
  token :: "string option"
  pwcachetime :: "(string \<times> real) list"
  pwcache :: "(string \<times> pyval) list"
  pwcacheexpire :: int
  cloudmode :: bool
  siteid :: "string option"
  authpath :: string
  authmode :: string
  pwcooldown :: int
  vitals_api :: bool
  client :: "(client_class \<times> 'c) option"

text \<open>
  \<^verbatim>\<open>Powerwall.__init__\<close>. \<open>new\<close> builds the state of a fresh client object;
  \<^verbatim>\<open>self.client.authenticate()\<close> ends the constructor, and an exception it raises
  leaves no object.
\<close>

definition Powerwall_init ::
  "pylib \<Rightarrow> 'c client \<Rightarrow> (client_class \<Rightarrow> 'c) \<Rightarrow>
   string \<Rightarrow> string \<Rightarrow> string \<Rightarrow> string \<Rightarrow> int \<Rightarrow> int \<Rightarrow> int \<Rightarrow> bool \<Rightarrow>
   string option \<Rightarrow> string \<Rightarrow> string \<Rightarrow> string \<Rightarrow> py_error + 'c powerwall" where
  "Powerwall_init lib cl new host' password' email' timezone' pwcacheexpire' timeout'
     poolmaxsize' cloudmode' siteid' authpath' authmode' cachefile' =
     (let self = \<lparr> cachefile = cachefile', host = host', password = password',
            email = email', timezone = timezone', timeout = timeout',
            poolmaxsize = poolmaxsize', auth = [], token = None, pwcachetime = [],
            pwcache = [], pwcacheexpire = pwcacheexpire', cloudmode = cloudmode',
            siteid = siteid', authpath = expanduser lib authpath', authmode = authmode',
            pwcooldown = 0, vitals_api = True, client = None \<rparr>;
          cls = (if cloudmode self \<or> host self = []
                 then PyPowerwallCloud (email self) (pwcacheexpire self) (timeout self)
                        (siteid self) (authpath self)
                 else PyPowerwallLocal (host self) (password self) (email self)
                        (timezone self) (timeout self) (pwcacheexpire self)
                        (poolmaxsize self) (authmode self) (cachefile self));
          self = self \<lparr> cloudmode := (cloudmode self \<or> host self = []) \<rparr>
      in case c_authenticate cl (new cls) of
           (Some e, s') \<Rightarrow> Inl e
         | (None, s') \<Rightarrow> Inr (self \<lparr> client := Some (cls, s') \<rparr>))"

text \<open>
  After construction a method of the facade acts on the object only by calling methods
  of \<^verbatim>\<open>self.client\<close>: \<^verbatim>\<open>poll\<close>, \<^verbatim>\<open>fetchpower\<close>, \<^verbatim>\<open>vitals\<close>, \<^verbatim>\<open>power\<close>,
  \<^verbatim>\<open>get_time_remaining\<close>. No method of the class assigns an attribute of \<^verbatim>\<open>self\<close>.
  A call changes the state of the client object and nothing else.
\<close>

datatype client_call =
    Call_poll string bool bool bool
  | Call_fetchpower string bool
  | Call_vitals
  | Call_power
  | Call_get_time_remaining

fun client_step :: "'c client \<Rightarrow> client_call \<Rightarrow> 'c \<Rightarrow> 'c" where
  "client_step cl (Call_poll api force recursive raw) s = snd (c_poll cl s api force recursive raw)"
| "client_step cl (Call_fetchpower key verbose) s = snd (c_fetchpower cl s key verbose)"
| "client_step cl Call_vitals s = snd (c_vitals cl s)"
| "client_step cl Call_power s = snd (c_power cl s)"
| "client_step cl Call_get_time_remaining s = snd (c_get_time_remaining cl s)"

definition after_calls :: "'c client \<Rightarrow> client_call list \<Rightarrow> 'c powerwall \<Rightarrow> 'c powerwall" where
  "after_calls cl calls self =
     self \<lparr> client := map_option (\<lambda>(cls, s). (cls, fold (client_step cl) calls s)) (client self) \<rparr>"

text \<open>The class of the client object, whatever its state.\<close>

definition client_kind :: "'c powerwall \<Rightarrow> client_class option" where
  "client_kind self = map_option fst (client self)"

section \<open>The response cache of the client\<close>






section \<open>The gateway server: proxy/server.py\<close>

definition ALLOWLIST :: "string list" where
  "ALLOWLIST =
     [''/api/status'', ''/api/site_info/site_name'', ''/api/meters/site'',
      ''/api/meters/solar'', ''/api/sitemaster'', ''/api/powerwalls'',
      ''/api/customer/registration'', ''/api/system_status'', ''/api/system_status/grid_status'',
      ''/api/system/update/status'', ''/api/site_info'', ''/api/system_status/grid_faults'',
      ''/api/operation'', ''/api/site_info/grid_codes'', ''/api/solars'', ''/api/solars/brands'',
      ''/api/customer'', ''/api/meters'', ''/api/installer'', ''/api/networks'',
      ''/api/system/networks'', ''/api/meters/readings'', ''/api/synchrometer/ct_voltage_references'',
      ''/api/troubleshooting/problems'', ''/api/auth/toggle/supported'', ''/api/solar_powerwall'']"

text \<open>
  The global dictionary \<^verbatim>\<open>proxystats\<close>, one field for each key, named \<open>ps_\<close> and the
  key. The key \<^verbatim>\<open>authmode\<close> is absent until \<^verbatim>\<open>/stats\<close> or \<^verbatim>\<open>/help\<close> stores it.
\<close>

record proxystats =
  ps_pypowerwall :: string
  ps_gets :: nat
  ps_errors :: nat
  ps_timeout :: nat
  ps_uri :: "string \<Rightarrow> nat option"
  ps_ts :: int
  ps_start :: int
  ps_clear :: int
  ps_uptime :: string
  ps_mem :: int
  ps_site_name :: pyval
  ps_cloudmode :: bool
  ps_siteid :: pyval
  ps_counter :: pyval
  ps_authmode :: "string option"

text \<open>
  What the handler sends: for an API answer the content type, the message and the bytes
  written (none when \<^verbatim>\<open>len(message)\<close> or \<^verbatim>\<open>bytes(message, "utf8")\<close> raises, which the
  handler catches and logs); for a static or proxied answer the content type and the
  content.
\<close>

datatype response =
    Api_response string pyval "string option"
  | Static_response string string

text \<open>
  What a request finds around it: the Python library, the facade object \<^verbatim>\<open>pw\<close> (its
  attributes and the method table of its client; the client's state is threaded apart),
  the clock and the memory gauge. Three parts of the handler are parameters: the bodies
  of the branches \<^verbatim>\<open>/strings\<close>, \<^verbatim>\<open>/temps\<close>, \<^verbatim>\<open>/temps/pw\<close>, \<^verbatim>\<open>/alerts\<close>, \<^verbatim>\<open>/alerts/pw\<close>,
  \<^verbatim>\<open>/freq\<close>, \<^verbatim>\<open>/pod\<close> and \<^verbatim>\<open>/version\<close>, which build their message from facade results and
  touch no counter (\<open>gw_derived\<close>: the message or the exception raised); the texts
  \<^verbatim>\<open>json.dumps(proxystats)\<close> and the help page; and the serving of a static or proxied
  file after the cookie headers (\<open>gw_static\<close>).
\<close>

record 'c gateway =
  gw_lib :: pylib
  gw_pw :: "'c powerwall"
  gw_cl :: "'c client"
  gw_now :: int
  gw_maxrss :: int
  gw_derived :: "string \<Rightarrow> 'c \<Rightarrow> (py_error + pyval) \<times> 'c"
  gw_dumps_stats :: "proxystats \<Rightarrow> string"
  gw_help_page :: "proxystats \<Rightarrow> string"
  gw_static :: "string \<Rightarrow> 'c \<Rightarrow> (py_error + response) \<times> 'c"

text \<open>\<^verbatim>\<open>Powerwall.vitals(jsonformat)\<close>\<close>

definition vitals :: "pylib \<Rightarrow> 'c client \<Rightarrow> 'c \<Rightarrow> bool \<Rightarrow> pyval \<times> 'c" where
  "vitals lib cl s jsonformat =
     (case c_vitals cl s of
        (output, s') \<Rightarrow>
          if jsonformat then (PStr (json_dumps_indent lib output), s') else (output, s'))"

subsection \<open>Formatting with two decimals\<close>

definition digit_char :: "nat \<Rightarrow> char" where
  "digit_char n = ''0123456789'' ! (n mod 10)"

fun digits :: "nat \<Rightarrow> string" where
  "digits n = (if n < 10 then [digit_char n] else digits (n div 10) @ [digit_char n])"

declare digits.simps [simp del]

text \<open>Rounding to the nearest integer, a tie to the even one.\<close>

definition round_half_even :: "real \<Rightarrow> int" where
  "round_half_even x =
     (let f = \<lfloor>x\<rfloor>; d = x - of_int f
      in if d < 1 / 2 then f else if 1 / 2 < d then f + 1 else if even f then f else f + 1)"

text \<open>\<^verbatim>\<open>"%0.2f" % x\<close> for a number \<open>x\<close>.\<close>

definition fmt_2f :: "real \<Rightarrow> string" where
  "fmt_2f x =
     (let n = nat (round_half_even (\<bar>x\<bar> * 100))
      in (if x < 0 then ''-'' else []) @ digits (n div 100) @ ''.'' @
         [digit_char (n div 10), digit_char n])"

text \<open>
  \<^verbatim>\<open>"%0.2f,%0.2f,%0.2f,%0.2f,%0.2f\n" % (grid, home, solar, battery, batterylevel)\<close>:
  an operand that is not a number raises \<^verbatim>\<open>TypeError\<close>.
\<close>

definition csv_format :: "pyval \<Rightarrow> pyval \<Rightarrow> pyval \<Rightarrow> pyval \<Rightarrow> pyval \<Rightarrow> py_error + string" where
  "csv_format g h so b lv =
     (case (num_of g, num_of h, num_of so, num_of b, num_of lv) of
        (Some g', Some h', Some so', Some b', Some lv') \<Rightarrow>
          Inr (fmt_2f g' @ '','' @ fmt_2f h' @ '','' @ fmt_2f so' @ '','' @ fmt_2f b' @ '','' @
               fmt_2f lv' @ [CHR 0x0A])
      | _ \<Rightarrow> Inl TypeError)"

subsection \<open>Routing\<close>

datatype route =
    Aggregates | Soe | Soe_scaled | Grid_status | Csv | Vitals | Strings | Stats
  | Stats_clear | Temps | Temps_pw | Alerts | Alerts_pw | Freq | Pod | Version | Help
  | Problems | Allowed | Other

text \<open>The \<^verbatim>\<open>if\<close>/\<^verbatim>\<open>elif\<close> chain of \<^verbatim>\<open>do_GET\<close>, in its order.\<close>

definition route_of :: "string \<Rightarrow> route" where
  "route_of path =
     (if path = ''/aggregates'' \<or> path = ''/api/meters/aggregates'' then Aggregates
      else if path = ''/soe'' then Soe
      else if path = ''/api/system_status/soe'' then Soe_scaled
      else if path = ''/api/system_status/grid_status'' then Grid_status
      else if path = ''/csv'' then Csv
      else if path = ''/vitals'' then Vitals
      else if path = ''/strings'' then Strings
      else if path = ''/stats'' then Stats
      else if path = ''/stats/clear'' then Stats_clear
      else if path = ''/temps'' then Temps
      else if path = ''/temps/pw'' then Temps_pw
      else if path = ''/alerts'' then Alerts
      else if path = ''/alerts/pw'' then Alerts_pw
      else if path = ''/freq'' then Freq
      else if path = ''/pod'' then Pod
      else if path = ''/version'' then Version
      else if path = ''/help'' then Help
      else if path = ''/api/troubleshooting/problems'' then Problems
      else if path \<in> set ALLOWLIST then Allowed
      else Other)"

subsection \<open>The branches\<close>

text \<open>
  The statistics refreshed by \<^verbatim>\<open>/stats\<close> and \<^verbatim>\<open>/help\<close>. The class \<^verbatim>\<open>Powerwall\<close> has no
  attribute \<^verbatim>\<open>Tesla\<close>, so in cloud mode \<^verbatim>\<open>pw.Tesla\<close> raises \<^verbatim>\<open>AttributeError\<close>, after the
  fields before it were stored.
\<close>

definition refresh_stats ::
  "'c gateway \<Rightarrow> proxystats \<Rightarrow> 'c \<Rightarrow> (py_error + unit) \<times> proxystats \<times> 'c" where
  "refresh_stats gw st s =
     (case site_name (gw_lib gw) (gw_cl gw) s of
        ((name, logged), s') \<Rightarrow>
          (let st1 = st \<lparr> ps_ts := gw_now gw,
                          ps_uptime := str_timedelta (gw_lib gw) (gw_now gw - ps_start st),
                          ps_mem := gw_maxrss gw,
                          ps_site_name := name,
                          ps_cloudmode := cloudmode (gw_pw gw) \<rparr>
           in if cloudmode (gw_pw gw) then (Inl AttributeError, st1, s')
              else (Inr (), st1 \<lparr> ps_authmode := Some (authmode (gw_pw gw)) \<rparr>, s')))"

text \<open>The four assignments of the branch \<^verbatim>\<open>/stats/clear\<close>.\<close>

definition clear_stats :: "'c gateway \<Rightarrow> proxystats \<Rightarrow> proxystats" where
  "clear_stats gw st =
     st \<lparr> ps_gets := 0, ps_errors := 0, ps_uri := Map.empty, ps_clear := gw_now gw \<rparr>"

text \<open>The branch \<^verbatim>\<open>/csv\<close>.\<close>

definition csv_branch ::
  "'c gateway \<Rightarrow> 'c \<Rightarrow> (py_error + string) \<times> 'c" where
  "csv_branch gw s =
     (case level (gw_lib gw) (gw_cl gw) s False of
        (Inl e, s1) \<Rightarrow> (Inl e, s1)
      | (Inr batterylevel, s1) \<Rightarrow>
          (case grid (gw_cl gw) s1 False of
             (g, s2) \<Rightarrow>
               (case solar (gw_cl gw) s2 False of
                  (so, s3) \<Rightarrow>
                    (case battery (gw_cl gw) s3 False of
                       (b, s4) \<Rightarrow>
                         (case home (gw_cl gw) s4 False of
                            (h, s5) \<Rightarrow>
                              (csv_format (py_or g (PInt 0)) (py_or h (PInt 0))
                                 (py_or so (PInt 0)) (py_or b (PInt 0)) batterylevel, s5))))))"

text \<open>The default body of \<^verbatim>\<open>/api/troubleshooting/problems\<close>.\<close>

definition no_problems :: string where
  \<open>no_problems = ''{"problems": []}''\<close>

text \<open>
  Every branch but the last \<^verbatim>\<open>else\<close>: the content type and the message it leaves, or
  the exception it raises, with the statistics and the client as it leaves them.
\<close>

definition branch ::
  "'c gateway \<Rightarrow> proxystats \<Rightarrow> 'c \<Rightarrow> string \<Rightarrow>
   (py_error + string \<times> pyval) \<times> proxystats \<times> 'c" where
  "branch gw st s path =
     (case route_of path of
        Aggregates \<Rightarrow>
          (case poll_default (gw_lib gw) (gw_cl gw) s ''/api/meters/aggregates'' of
             (message, s') \<Rightarrow> (Inr (''application/json'', message), st, s'))
      | Soe \<Rightarrow>
          (case poll_default (gw_lib gw) (gw_cl gw) s ''/api/system_status/soe'' of
             (message, s') \<Rightarrow> (Inr (''application/json'', message), st, s'))
      | Soe_scaled \<Rightarrow>
          (case level (gw_lib gw) (gw_cl gw) s True of
             (Inl e, s') \<Rightarrow> (Inl e, st, s')
           | (Inr lvl, s') \<Rightarrow>
               (Inr (''application/json'',
                     PStr (json_dumps (gw_lib gw) (PDict [(''percentage'', lvl)]))), st, s'))
      | Grid_status \<Rightarrow>
          (case poll_default (gw_lib gw) (gw_cl gw) s ''/api/system_status/grid_status'' of
             (message, s') \<Rightarrow> (Inr (''application/json'', message), st, s'))
      | Csv \<Rightarrow>
          (case csv_branch gw s of
             (Inl e, s') \<Rightarrow> (Inl e, st, s')
           | (Inr line, s') \<Rightarrow> (Inr (''text/plain; charset=utf-8'', PStr line), st, s'))
      | Vitals \<Rightarrow>
          (case vitals (gw_lib gw) (gw_cl gw) s True of
             (text, s') \<Rightarrow> (Inr (''application/json'', py_or text (PDict [])), st, s'))
      | Stats \<Rightarrow>
          (case refresh_stats gw st s of
             (Inl e, st', s') \<Rightarrow> (Inl e, st', s')
           | (Inr u, st', s') \<Rightarrow>
               (Inr (''application/json'', PStr (gw_dumps_stats gw st')), st', s'))
      | Stats_clear \<Rightarrow>
          (Inr (''application/json'', PStr (gw_dumps_stats gw (clear_stats gw st))),
           clear_stats gw st, s)
      | Help \<Rightarrow>
          (case refresh_stats gw st s of
             (Inl e, st', s') \<Rightarrow> (Inl e, st', s')
           | (Inr u, st', s') \<Rightarrow> (Inr (''text/html'', PStr (gw_help_page gw st')), st', s'))
      | Problems \<Rightarrow>
          (case poll_default (gw_lib gw) (gw_cl gw) s ''/api/troubleshooting/problems'' of
             (payload, s') \<Rightarrow>
               (Inr (''application/json'', py_or payload (PStr no_problems)), st, s'))
      | Allowed \<Rightarrow>
          (case poll_default (gw_lib gw) (gw_cl gw) s path of
             (message, s') \<Rightarrow> (Inr (''application/json'', message), st, s'))
      | _ \<Rightarrow>
          (case gw_derived gw path s of
             (Inl e, s') \<Rightarrow> (Inl e, st, s')
           | (Inr message, s') \<Rightarrow> (Inr (''application/json'', message), st, s')))"

subsection \<open>Counting and sending\<close>

definition hits :: "proxystats \<Rightarrow> string \<Rightarrow> nat" where
  "hits st path = (case ps_uri st path of None \<Rightarrow> 0 | Some n \<Rightarrow> n)"

text \<open>The section \<^verbatim>\<open># Count\<close>: the statistics and the message after it.\<close>

definition count_message :: "proxystats \<Rightarrow> string \<Rightarrow> pyval \<Rightarrow> proxystats \<times> pyval" where
  "count_message st path message =
     (if message = PNone then (st \<lparr> ps_timeout := ps_timeout st + 1 \<rparr>, PStr ''TIMEOUT!'')
      else if message = PStr ''ERROR!'' then (st \<lparr> ps_errors := ps_errors st + 1 \<rparr>, PStr ''ERROR!'')
      else (st \<lparr> ps_gets := ps_gets st + 1,
                  ps_uri := (case ps_uri st path of
                               Some n \<Rightarrow> (ps_uri st)(path \<mapsto> n + 1)
                             | None \<Rightarrow> (ps_uri st)(path \<mapsto> 1)) \<rparr>, message))"

text \<open>The bytes \<^verbatim>\<open>self.wfile.write(bytes(message, "utf8"))\<close> writes: only a string is sent.\<close>

fun sent_body :: "pyval \<Rightarrow> string option" where
  "sent_body (PStr text) = Some text"
| "sent_body _ = None"

text \<open>
  The last \<^verbatim>\<open>else\<close>: the request is counted first, then the cookie headers are set, then
  the file is served. In cookie mode the cookies are read from \<^verbatim>\<open>pw.auth\<close>.
\<close>

definition static_branch ::
  "'c gateway \<Rightarrow> proxystats \<Rightarrow> 'c \<Rightarrow> string \<Rightarrow> (py_error + response) \<times> proxystats \<times> 'c" where
  "static_branch gw st s path =
     (let st' = st \<lparr> ps_gets := ps_gets st + 1 \<rparr>
      in if authmode (gw_pw gw) \<noteq> ''token'' \<and>
            (map_of (auth (gw_pw gw)) ''AuthCookie'' = None \<or>
             map_of (auth (gw_pw gw)) ''UserRecord'' = None)
         then (Inl KeyError, st', s)
         else (case gw_static gw path s of (r, s') \<Rightarrow> (r, st', s')))"

text \<open>
  \<^verbatim>\<open>handler.do_GET\<close> for the request path \<open>path\<close>: the response or the exception that
  ends the handler, the statistics and the client's state after the request.
\<close>

definition do_GET ::
  "'c gateway \<Rightarrow> proxystats \<Rightarrow> 'c \<Rightarrow> string \<Rightarrow> (py_error + response) \<times> proxystats \<times> 'c" where
  "do_GET gw st s path =
     (if route_of path = Other then static_branch gw st s path
      else case branch gw st s path of
          (Inl e, st', s') \<Rightarrow> (Inl e, st', s')
        | (Inr (contenttype, message), st', s') \<Rightarrow>
            (case count_message st' path message of
               (st'', message') \<Rightarrow>
                 (Inr (Api_response contenttype message' (sent_body message')), st'', s')))"



section \<open>Concrete collaborators\<close>

text \<open>
  A library whose text functions answer with fixed strings, and a client that answers
  every poll with one payload and every power query with one value. They give the
  properties below inputs to run on.
\<close>

definition stub_lib :: pylib where
  "stub_lib = \<lparr> json_dumps = (\<lambda>v. ''null''), json_dumps_indent = (\<lambda>v. ''null''),
       float_of_str = (\<lambda>s. None), expanduser = (\<lambda>p. p), str_timedelta = (\<lambda>n. ''0:00:00'') \<rparr>"

definition fixed_client :: "pyval \<Rightarrow> pyval \<Rightarrow> 'c client" where
  "fixed_client payload watts =
     \<lparr> c_poll = (\<lambda>s api force recursive raw. (payload, s)),
       c_fetchpower = (\<lambda>s key verbose. (watts, s)),
       c_vitals = (\<lambda>s. (PNone, s)),
       c_power = (\<lambda>s. (PNone, s)),
       c_get_time_remaining = (\<lambda>s. (PNone, s)),
       c_authenticate = (\<lambda>s. (None, s)) \<rparr>"



text \<open>
  A facade object in local mode with the given \<^verbatim>\<open>authmode\<close>, a gateway around the fixed
  client with fixed texts and a static file found for every path, and the statistics
  of a server that has just started.
\<close>

definition local_pw :: "string \<Rightarrow> unit powerwall" where
  "local_pw mode =
     \<lparr> cachefile = ''.powerwall'', host = ''10.0.1.99'', password = ''pw'', email = ''a@b.c'',
       timezone = ''UTC'', timeout = 5, poolmaxsize = 10, auth = [], token = None,
       pwcachetime = [], pwcache = [], pwcacheexpire = 5, cloudmode = False, siteid = None,
       authpath = [], authmode = mode, pwcooldown = 0, vitals_api = True,
       client = Some (PyPowerwallLocal ''10.0.1.99'' ''pw'' ''a@b.c'' ''UTC'' 5 5 10 mode
                        ''.powerwall'', ()) \<rparr>"

definition stub_gateway :: "pyval \<Rightarrow> pyval \<Rightarrow> string \<Rightarrow> unit gateway" where
  "stub_gateway payload watts mode =
     \<lparr> gw_lib = stub_lib, gw_pw = local_pw mode, gw_cl = fixed_client payload watts,
       gw_now = 1000, gw_maxrss = 0,
       gw_derived = (\<lambda>path s. (Inr (PStr ''{}''), s)),
       gw_dumps_stats = (\<lambda>st. ''{}''),
       gw_help_page = (\<lambda>st. ''<html>''),
       gw_static = (\<lambda>path s. (Inr (Static_response ''text/html'' ''<html>''), s)) \<rparr>"

definition start_stats :: proxystats where
  "start_stats =
     \<lparr> ps_pypowerwall = ''0.8.0 Proxy t43'', ps_gets = 0, ps_errors = 0, ps_timeout = 0,
       ps_uri = Map.empty, ps_ts = 900, ps_start = 900, ps_clear = 900, ps_uptime = [],
       ps_mem = 0, ps_site_name = PStr [], ps_cloudmode = False, ps_siteid = PNone,
       ps_counter = PInt 0, ps_authmode = None \<rparr>"

section \<open>Properties of the facade\<close>

subsection \<open>The power aliases\<close>

text \<open>
  C10: for every \<open>verbose\<close> flag, \<^verbatim>\<open>grid(verbose)\<close> returns what \<^verbatim>\<open>site(verbose)\<close> returns
  and \<^verbatim>\<open>home(verbose)\<close> what \<^verbatim>\<open>load(verbose)\<close> returns, and each leaves the client in
  the same state as the method it stands for: the aliases compute nothing of their own.
\<close>

theorem grid_home_aliases:
  "grid cl s verbose = site cl s verbose \<and> home cl s verbose = load cl s verbose"
  by (simp add: grid_def home_def)

subsection \<open>The grid status\<close>

lemma map_of_gridmap_None: "g \<notin> set (map fst gridmap) \<Longrightarrow> map_of gridmap g = None"
  by (simp add: map_of_eq_None_iff)

lemma grid_status_poll:
  assumes "c_poll cl s ''/api/system_status/grid_status'' False False False = (payload, s')"
    and "ty = ''string'' \<or> ty = ''numeric''"
  shows "grid_status lib cl s ty = (grid_status_of lib payload ty, s')"
  using assms by (auto simp add: grid_status_def poll_def)

text \<open>
  C3: when the polled payload carries the raw grid state \<open>g\<close>, a string, \<^verbatim>\<open>grid_status\<close>
  maps \<^verbatim>\<open>SystemGridConnected\<close> to \<^verbatim>\<open>UP\<close> and 1, \<^verbatim>\<open>SystemIslandedActive\<close> to \<^verbatim>\<open>DOWN\<close> and 0,
  \<^verbatim>\<open>SystemTransitionToGrid\<close> to \<^verbatim>\<open>SYNCING\<close> and -1, for the types \<^verbatim>\<open>string\<close> and \<^verbatim>\<open>numeric\<close>;
  a state outside the keys of \<^verbatim>\<open>gridmap\<close> gives \<^verbatim>\<open>None\<close>, is logged, and raises nothing.
\<close>

theorem grid_status_mapping:
  assumes polled: "c_poll cl s ''/api/system_status/grid_status'' False False False = (payload, s')"
    and raw: "py_getitem payload ''grid_status'' = Inr (PStr g)"
  shows "(g = ''SystemGridConnected'' \<longrightarrow>
            grid_status lib cl s ''string'' = (Inr (PStr ''UP'', []), s') \<and>
            grid_status lib cl s ''numeric'' = (Inr (PInt 1, []), s')) \<and>
         (g = ''SystemIslandedActive'' \<longrightarrow>
            grid_status lib cl s ''string'' = (Inr (PStr ''DOWN'', []), s') \<and>
            grid_status lib cl s ''numeric'' = (Inr (PInt 0, []), s')) \<and>
         (g = ''SystemTransitionToGrid'' \<longrightarrow>
            grid_status lib cl s ''string'' = (Inr (PStr ''SYNCING'', []), s') \<and>
            grid_status lib cl s ''numeric'' = (Inr (PInt (- 1), []), s')) \<and>
         (g \<notin> set (map fst gridmap) \<longrightarrow>
            grid_status lib cl s ''string'' =
              (Inr (PNone, [Unparsed_grid_status payload ''string'']), s') \<and>
            grid_status lib cl s ''numeric'' =
              (Inr (PNone, [Unparsed_grid_status payload ''numeric'']), s'))"
proof -
  have str: "grid_status lib cl s ''string'' = (grid_status_of lib payload ''string'', s')"
    using polled by (rule grid_status_poll) simp
  have num: "grid_status lib cl s ''numeric'' = (grid_status_of lib payload ''numeric'', s')"
    using polled by (rule grid_status_poll) simp
  have known: "\<And>ty. ty = ''string'' \<or> ty = ''numeric'' \<Longrightarrow> grid_status_of lib payload ty =
      (case gridmap_get (PStr g) ty of Inl e \<Rightarrow> Inl e
       | Inr status \<Rightarrow> Inr (status, if status = PNone then [Unparsed_grid_status payload ty] else []))"
    using raw by (auto simp add: grid_status_of_def)
  have unknown: "g \<notin> set (map fst gridmap) \<Longrightarrow> gridmap_get (PStr g) ty = Inr PNone" for ty
    by (simp add: map_of_gridmap_None)
  show ?thesis
    unfolding str num
    by (intro conjI impI) (simp_all add: known unknown, simp_all add: gridmap_def)
qed

theorem grid_status_mapping_witness:
  "grid_status stub_lib (fixed_client (PDict [(''grid_status'', PStr ''SystemGridConnected'')]) PNone) ()
      ''string'' = (Inr (PStr ''UP'', []), ()) \<and>
   grid_status stub_lib (fixed_client (PDict [(''grid_status'', PStr ''SystemIslandedActive'')]) PNone) ()
      ''numeric'' = (Inr (PInt 0, []), ()) \<and>
   grid_status stub_lib (fixed_client (PDict [(''grid_status'', PStr ''SystemTransitionToGrid'')]) PNone) ()
      ''numeric'' = (Inr (PInt (- 1), []), ()) \<and>
   grid_status stub_lib (fixed_client (PDict [(''grid_status'', PStr ''SystemBogus'')]) PNone) ()
      ''string'' = (Inr (PNone, [Unparsed_grid_status (PDict [(''grid_status'', PStr ''SystemBogus'')]) ''string'']), ())"
  using
    grid_status_mapping [of "fixed_client (PDict [(''grid_status'', PStr ''SystemGridConnected'')]) PNone"
      "()" "PDict [(''grid_status'', PStr ''SystemGridConnected'')]" "()" "''SystemGridConnected''" stub_lib]
    grid_status_mapping [of "fixed_client (PDict [(''grid_status'', PStr ''SystemIslandedActive'')]) PNone"
      "()" "PDict [(''grid_status'', PStr ''SystemIslandedActive'')]" "()" "''SystemIslandedActive''" stub_lib]
    grid_status_mapping [of "fixed_client (PDict [(''grid_status'', PStr ''SystemTransitionToGrid'')]) PNone"
      "()" "PDict [(''grid_status'', PStr ''SystemTransitionToGrid'')]" "()" "''SystemTransitionToGrid''" stub_lib]
    grid_status_mapping [of "fixed_client (PDict [(''grid_status'', PStr ''SystemBogus'')]) PNone"
      "()" "PDict [(''grid_status'', PStr ''SystemBogus'')]" "()" "''SystemBogus''" stub_lib]
  by (simp add: fixed_client_def gridmap_def)

subsection \<open>Battery percentages\<close>

lemma map_of_Some_key: "map_of d k = Some v \<Longrightarrow> k \<in> set (map fst d)"
  by (induction d) (auto split: if_splits)

lemma level_of_dict:
  assumes "map_of d ''percentage'' = Some raw"
  shows "level_of (PDict d) scale = (if scale then py_scale raw else Inr raw)"
  using assms map_of_Some_key [OF assms] by (simp add: level_of_def)

lemma get_reserve_of_dict:
  assumes "map_of d ''backup_reserve_percent'' = Some raw"
  shows "get_reserve_of lib (PDict d) scale =
     (case py_float lib raw of Inl e \<Rightarrow> Inl e
      | Inr percent \<Rightarrow> Inr (PFloat (if scale then app_scale percent else percent)))"
  using assms map_of_Some_key [OF assms] by (simp add: get_reserve_of_def)

lemma py_float_num: "num_of raw = Some r \<Longrightarrow> py_float lib raw = Inr r"
  by (cases raw) auto

text \<open>
  C2: when the polled state of energy carries the raw percentage \<open>raw\<close>, a number \<open>r\<close>,
  \<^verbatim>\<open>level(scale=True)\<close> is \<open>(r / 0.95) - (5 / 0.95)\<close> and \<^verbatim>\<open>level(scale=False)\<close> is \<open>raw\<close>
  unchanged; \<^verbatim>\<open>get_reserve\<close> does the same with the raw reserve, which it first turns
  into a float. Raw 100 gives 100, raw 5 gives 0 and raw 50 gives 47.368...
\<close>

theorem battery_scaling:
  assumes soe: "c_poll cl s ''/api/system_status/soe'' False False False = (PDict d, s')"
    and lvl: "map_of d ''percentage'' = Some raw"
    and op: "c_poll cl s ''/api/operation'' False False False = (PDict d', s'')"
    and res: "map_of d' ''backup_reserve_percent'' = Some raw'"
    and r: "num_of raw = Some r" and r': "num_of raw' = Some r'"
  shows "level lib cl s True = (Inr (PFloat ((r / 0.95) - (5 / 0.95))), s') \<and>
         level lib cl s False = (Inr raw, s') \<and>
         get_reserve lib cl s True = (Inr (PFloat ((r' / 0.95) - (5 / 0.95))), s'') \<and>
         get_reserve lib cl s False = (Inr (PFloat r'), s'') \<and>
         app_scale 100 = 100 \<and> app_scale 5 = 0 \<and> app_scale 50 = 900 / 19 \<and>
         47.368 < app_scale 50 \<and> app_scale 50 < 47.369"
proof -
  have "level lib cl s scale = (if scale then py_scale raw else Inr raw, s')" for scale
    using soe by (simp add: level_def poll_def level_of_dict [OF lvl])
  moreover have "get_reserve lib cl s scale =
      (Inr (PFloat (if scale then app_scale r' else r')), s'')" for scale
    using op by (simp add: get_reserve_def poll_def get_reserve_of_dict [OF res] py_float_num [OF r'])
  moreover have "py_scale raw = Inr (PFloat ((r / 0.95) - (5 / 0.95)))"
    using r by (simp add: py_scale_def app_scale_def)
  ultimately show ?thesis
    by (simp add: app_scale_def)
qed

theorem battery_scaling_witness:
  "level stub_lib (fixed_client (PDict [(''percentage'', PInt 100), (''backup_reserve_percent'', PFloat 24)]) PNone) () True
     = (Inr (PFloat 100), ()) \<and>
   level stub_lib (fixed_client (PDict [(''percentage'', PInt 100), (''backup_reserve_percent'', PFloat 24)]) PNone) () False
     = (Inr (PInt 100), ()) \<and>
   get_reserve stub_lib (fixed_client (PDict [(''percentage'', PInt 100), (''backup_reserve_percent'', PFloat 24)]) PNone) () True
     = (Inr (PFloat 20), ()) \<and>
   get_reserve stub_lib (fixed_client (PDict [(''percentage'', PInt 100), (''backup_reserve_percent'', PFloat 24)]) PNone) () False
     = (Inr (PFloat 24), ())"
  using battery_scaling [of "fixed_client (PDict [(''percentage'', PInt 100), (''backup_reserve_percent'', PFloat 24)]) PNone"
      "()" "[(''percentage'', PInt 100), (''backup_reserve_percent'', PFloat 24)]" "()" "PInt 100"
      "[(''percentage'', PInt 100), (''backup_reserve_percent'', PFloat 24)]" "()" "PFloat 24" 100 24 stub_lib]
  by (simp add: fixed_client_def)

subsection \<open>A missing payload\<close>

text \<open>
  C6: an accessor should answer a missing payload with \<^verbatim>\<open>None\<close>. \<^verbatim>\<open>site_name\<close> and
  \<^verbatim>\<open>level\<close> do. \<^verbatim>\<open>grid_status\<close> does not: it subscripts the payload unguarded, so a
  \<^verbatim>\<open>None\<close> payload raises \<^verbatim>\<open>TypeError\<close> and a payload without the key raises \<^verbatim>\<open>KeyError\<close>.
\<close>

theorem grid_status_none_payload:
  "grid_status lib (fixed_client PNone watts) () ''string'' = (Inl TypeError, ()) \<and>
   grid_status lib (fixed_client PNone watts) () ''numeric'' = (Inl TypeError, ()) \<and>
   grid_status lib (fixed_client (PDict []) watts) () ''numeric'' = (Inl KeyError, ()) \<and>
   site_name lib (fixed_client PNone watts) () = ((PNone, [Unparsed_site_name PNone]), ()) \<and>
   level lib (fixed_client PNone watts) () scale = (Inr PNone, ())"
  by (simp add: grid_status_def grid_status_of_def poll_def fixed_client_def site_name_def
      site_name_of_def level_def level_of_def)

subsection \<open>Backend selection\<close>

lemma fold_client: "map_option fst (map_option (\<lambda>(cls, s). (cls, f s)) c) = map_option fst c"
  by (cases c) auto

lemma after_calls_frame:
  "cloudmode (after_calls cl calls self) = cloudmode self \<and>
   client_kind (after_calls cl calls self) = client_kind self"
  by (simp add: after_calls_def client_kind_def fold_client)

text \<open>
  What the methods of the facade embedded above do to the client: each is one call of
  a method of the client, and \<^verbatim>\<open>grid_status\<close> with an invalid type is none.
\<close>

lemma facade_methods_are_client_calls:
  "snd (poll lib cl s api jsonformat raw recursive force)
     = client_step cl (Call_poll api force recursive raw) s"
  "snd (level lib cl s scale)
     = client_step cl (Call_poll ''/api/system_status/soe'' False False False) s"
  "snd (get_reserve lib cl s scale)
     = client_step cl (Call_poll ''/api/operation'' False False False) s"
  "snd (site_name lib cl s)
     = client_step cl (Call_poll ''/api/site_info/site_name'' False False False) s"
  "snd (grid_status lib cl s ty)
     = (if ty \<in> set [''json'', ''string'', ''numeric'']
        then client_step cl (Call_poll ''/api/system_status/grid_status'' False False False) s
        else s)"
  "snd (vitals lib cl s jsonformat) = client_step cl Call_vitals s"
  "snd (site cl s verbose) = client_step cl (Call_fetchpower ''site'' verbose) s"
  "snd (solar cl s verbose) = client_step cl (Call_fetchpower ''solar'' verbose) s"
  "snd (battery cl s verbose) = client_step cl (Call_fetchpower ''battery'' verbose) s"
  "snd (load cl s verbose) = client_step cl (Call_fetchpower ''load'' verbose) s"
  "snd (grid cl s verbose) = client_step cl (Call_fetchpower ''site'' verbose) s"
  "snd (home cl s verbose) = client_step cl (Call_fetchpower ''load'' verbose) s"
  by (simp_all add: poll_def level_def get_reserve_def site_name_def grid_status_def vitals_def
      site_def solar_def battery_def load_def grid_def home_def split: prod.splits)

lemma Powerwall_init_Inr:
  assumes "Powerwall_init lib cl new host' password' email' timezone' pwcacheexpire' timeout'
     poolmaxsize' cloudmode' siteid' authpath' authmode' cachefile' = Inr self"
  shows "cloudmode self = (cloudmode' \<or> host' = [])"
    and "client_kind self = Some
           (if cloudmode' \<or> host' = []
            then PyPowerwallCloud email' pwcacheexpire' timeout' siteid' (expanduser lib authpath')
            else PyPowerwallLocal host' password' email' timezone' timeout' pwcacheexpire'
                   poolmaxsize' authmode' cachefile')"
proof -
  let ?cls = "if cloudmode' \<or> host' = []
            then PyPowerwallCloud email' pwcacheexpire' timeout' siteid' (expanduser lib authpath')
            else PyPowerwallLocal host' password' email' timezone' timeout' pwcacheexpire'
                   poolmaxsize' authmode' cachefile'"
  obtain e s' where auth: "c_authenticate cl (new ?cls) = (e, s')"
    by (cases "c_authenticate cl (new ?cls)")
  from assms auth have "e = None"
    by (cases e) (simp_all add: Powerwall_init_def Let_def cong del: if_weak_cong)
  with assms auth show "cloudmode self = (cloudmode' \<or> host' = [])"
    by (auto simp add: Powerwall_init_def Let_def cong del: if_weak_cong)
  from assms auth \<open>e = None\<close> show "client_kind self = Some ?cls"
    by (auto simp add: Powerwall_init_def Let_def client_kind_def cong del: if_weak_cong)
qed

text \<open>
  C7: a constructor that returns has chosen cloud mode and a \<^verbatim>\<open>PyPowerwallCloud\<close> client
  exactly when \<open>cloudmode\<close> was passed true or \<open>host\<close> is the empty string, and local
  mode with a \<^verbatim>\<open>PyPowerwallLocal\<close> client otherwise; no sequence of calls made by the
  facade's methods changes the mode or the class of the client.
\<close>

theorem backend_selection:
  assumes "Powerwall_init lib cl new host' password' email' timezone' pwcacheexpire' timeout'
     poolmaxsize' cloudmode' siteid' authpath' authmode' cachefile' = Inr self"
  shows "cloudmode self = (cloudmode' \<or> host' = []) \<and>
         client_kind self = Some
           (if cloudmode' \<or> host' = []
            then PyPowerwallCloud email' pwcacheexpire' timeout' siteid' (expanduser lib authpath')
            else PyPowerwallLocal host' password' email' timezone' timeout' pwcacheexpire'
                   poolmaxsize' authmode' cachefile') \<and>
         cloudmode (after_calls cl calls self) = cloudmode self \<and>
         client_kind (after_calls cl calls self) = client_kind self"
  using Powerwall_init_Inr [OF assms] after_calls_frame [of cl calls self] by simp

theorem backend_selection_witness:
  "(\<exists>self. Powerwall_init stub_lib (fixed_client PNone PNone) (\<lambda>cls. ())
       [] ''pw'' ''a@b.c'' ''UTC'' 5 5 10 False None [] ''cookie'' ''.powerwall'' = Inr self \<and>
     cloudmode self \<and>
     client_kind self = Some (PyPowerwallCloud ''a@b.c'' 5 5 None []) \<and>
     client_kind (after_calls (fixed_client PNone PNone) [Call_vitals, Call_power] self)
       = Some (PyPowerwallCloud ''a@b.c'' 5 5 None [])) \<and>
   (\<exists>self. Powerwall_init stub_lib (fixed_client PNone PNone) (\<lambda>cls. ())
       ''10.0.1.99'' ''pw'' ''a@b.c'' ''UTC'' 5 5 10 False None [] ''cookie'' ''.powerwall'' = Inr self \<and>
     \<not> cloudmode self \<and>
     client_kind self =
       Some (PyPowerwallLocal ''10.0.1.99'' ''pw'' ''a@b.c'' ''UTC'' 5 5 10 ''cookie'' ''.powerwall''))"
proof -
  obtain a where a: "Powerwall_init stub_lib (fixed_client PNone PNone) (\<lambda>cls. ())
       [] ''pw'' ''a@b.c'' ''UTC'' 5 5 10 False None [] ''cookie'' ''.powerwall'' = Inr a"
    by (simp add: Powerwall_init_def Let_def fixed_client_def)
  obtain b where b: "Powerwall_init stub_lib (fixed_client PNone PNone) (\<lambda>cls. ())
       ''10.0.1.99'' ''pw'' ''a@b.c'' ''UTC'' 5 5 10 False None [] ''cookie'' ''.powerwall'' = Inr b"
    by (simp add: Powerwall_init_def Let_def fixed_client_def)
  from backend_selection [OF a, of "[Call_vitals, Call_power]"] a
  have "\<exists>self. Powerwall_init stub_lib (fixed_client PNone PNone) (\<lambda>cls. ())
       [] ''pw'' ''a@b.c'' ''UTC'' 5 5 10 False None [] ''cookie'' ''.powerwall'' = Inr self \<and>
     cloudmode self \<and>
     client_kind self = Some (PyPowerwallCloud ''a@b.c'' 5 5 None []) \<and>
     client_kind (after_calls (fixed_client PNone PNone) [Call_vitals, Call_power] self)
       = Some (PyPowerwallCloud ''a@b.c'' 5 5 None [])"
    by (simp add: stub_lib_def)
  moreover from backend_selection [OF b, of "[]"] b
  have "\<exists>self. Powerwall_init stub_lib (fixed_client PNone PNone) (\<lambda>cls. ())
       ''10.0.1.99'' ''pw'' ''a@b.c'' ''UTC'' 5 5 10 False None [] ''cookie'' ''.powerwall'' = Inr self \<and>
     \<not> cloudmode self \<and>
     client_kind self =
       Some (PyPowerwallLocal ''10.0.1.99'' ''pw'' ''a@b.c'' ''UTC'' 5 5 10 ''cookie'' ''.powerwall'')"
    by simp
  ultimately show ?thesis by blast
qed

subsection \<open>The cache\<close>








section \<open>Properties of the gateway server\<close>

subsection \<open>Routes of the paths used below\<close>




lemma route_clear: "route_of ''/stats/clear'' = Stats_clear"
  by (simp add: route_of_def)

lemma route_csv: "route_of ''/csv'' = Csv"
  by (simp add: route_of_def)

lemma route_problems: "route_of ''/api/troubleshooting/problems'' = Problems"
  by (simp add: route_of_def)

subsection \<open>The counters\<close>




lemma branch_clear:
  assumes "branch gw st s path = (r, st', s')" and "route_of path = Stats_clear"
  shows "st' = clear_stats gw st"
  using assms by (auto simp add: branch_def)




















subsection \<open>Clearing the statistics\<close>

text \<open>
  C5: \<^verbatim>\<open>/stats/clear\<close> should reset every serving counter. The branch assigns \<open>gets\<close>,
  \<open>errors\<close>, \<open>uri\<close> and \<open>clear\<close> and misses \<open>timeout\<close>: a count of three timeouts
  is still three after the four assignments, and after the whole request.
\<close>

theorem stats_clear_keeps_timeout:
  "ps_gets (clear_stats gw (st \<lparr> ps_timeout := 3 \<rparr>)) = 0 \<and>
   ps_errors (clear_stats gw (st \<lparr> ps_timeout := 3 \<rparr>)) = 0 \<and>
   ps_timeout (clear_stats gw (st \<lparr> ps_timeout := 3 \<rparr>)) = 3 \<and>
   ps_timeout (fst (snd (do_GET gw (st \<lparr> ps_timeout := 3 \<rparr>) s ''/stats/clear''))) = 3"
  by (simp add: do_GET_def route_clear branch_def clear_stats_def count_message_def)

subsection \<open>The troubleshooting fallback\<close>

text \<open>
  C8: when the poll of \<^verbatim>\<open>/api/troubleshooting/problems\<close> returns \<^verbatim>\<open>None\<close> or an empty
  payload, the request is answered with the default body of no problems, written as it
  is, and counted as a get, not as an error or a timeout.
\<close>

theorem problems_fallback:
  assumes \<open>c_poll (gw_cl gw) s ''/api/troubleshooting/problems'' False False False = (payload, s')\<close>
    and \<open>\<not> truthy payload\<close>
  shows \<open>do_GET gw st s ''/api/troubleshooting/problems''
      = (Inr (Api_response ''application/json'' (PStr ''{"problems": []}'')
               (Some ''{"problems": []}'')),
         st \<lparr> ps_gets := ps_gets st + 1,
              ps_uri := (ps_uri st)(''/api/troubleshooting/problems'' \<mapsto>
                          hits st ''/api/troubleshooting/problems'' + 1) \<rparr>,
         s')\<close>
  using assms
  by (simp add: do_GET_def route_problems branch_def poll_def py_or_def no_problems_def
      count_message_def hits_def split: option.splits)

theorem problems_fallback_witness:
  \<open>do_GET (stub_gateway PNone PNone ''cookie'') start_stats () ''/api/troubleshooting/problems''
      = (Inr (Api_response ''application/json'' (PStr ''{"problems": []}'')
               (Some ''{"problems": []}'')),
         start_stats \<lparr> ps_gets := 1, ps_uri := [''/api/troubleshooting/problems'' \<mapsto> 1] \<rparr>,
         ()) \<and>
    fst (do_GET (stub_gateway (PDict []) PNone ''cookie'') start_stats ()
           ''/api/troubleshooting/problems'')
      = Inr (Api_response ''application/json'' (PStr ''{"problems": []}'')
               (Some ''{"problems": []}''))\<close>
  using
    problems_fallback [of "stub_gateway PNone PNone ''cookie''" "()" PNone "()" start_stats]
    problems_fallback [of "stub_gateway (PDict []) PNone ''cookie''" "()" "PDict []" "()" start_stats]
  by (simp add: stub_gateway_def fixed_client_def start_stats_def hits_def)

subsection \<open>The CSV endpoint\<close>

lemma digit_char_digit: "digit_char n \<in> set ''0123456789''"
proof -
  have "n mod 10 < length ''0123456789''" by simp
  then show ?thesis unfolding digit_char_def by (rule nth_mem)
qed

lemma digits_digit: "set (digits n) \<subseteq> set ''0123456789''"
proof (induction n rule: digits.induct)
  case (1 n)
  show ?case
  proof (cases "n < 10")
    case True
    then show ?thesis using digit_char_digit [of n] by (subst digits.simps) simp
  next
    case False
    then show ?thesis using 1 digit_char_digit [of n] by (subst digits.simps) simp
  qed
qed

lemma digits_nonempty: "digits n \<noteq> []"
  by (subst digits.simps) simp

lemma fmt_2f_shape:
  "\<exists>n. fmt_2f x = (if x < 0 then ''-'' else []) @ digits (n div 100) @
            [CHR ''.'', digit_char (n div 10), digit_char n]"
  by (rule exI [of _ "nat (round_half_even (\<bar>x\<bar> * 100))"]) (simp add: fmt_2f_def Let_def)

lemma digits_shape:
  "digits k \<noteq> [] \<and> set (digits k) \<subseteq> set ''0123456789'' \<and> digit_char k \<in> set ''0123456789''"
  by (rule conjI [OF digits_nonempty conjI [OF digits_digit digit_char_digit]])


lemma fmt_2f_zero: "fmt_2f 0 = ''0.00''"
  by (simp add: fmt_2f_def round_half_even_def digits.simps digit_char_def)

lemma csv_branch_value:
  assumes "level (gw_lib gw) (gw_cl gw) s False = (Inr lv, s1)"
    and "grid (gw_cl gw) s1 False = (g, s2)"
    and "solar (gw_cl gw) s2 False = (so, s3)"
    and "battery (gw_cl gw) s3 False = (b, s4)"
    and "home (gw_cl gw) s4 False = (h, s5)"
  shows "csv_branch gw s =
     (csv_format (py_or g (PInt 0)) (py_or h (PInt 0)) (py_or so (PInt 0)) (py_or b (PInt 0)) lv, s5)"
  using assms by (simp add: csv_branch_def)

text \<open>
  What \<^verbatim>\<open>/csv\<close> answers when the battery level is a number: the content type
  \<^verbatim>\<open>text/plain; charset=utf-8\<close> and one line: grid, home, solar, battery and level in
  this order, separated by commas and ended by a newline, each written by \<open>fmt_2f\<close>.
  A power that is \<^verbatim>\<open>None\<close> is replaced by 0 and written \<^verbatim>\<open>0.00\<close>. What \<open>fmt_2f\<close> writes is
  an optional sign, the digits of the integer part, a point and two digits.
\<close>

lemma csv_endpoint:
  assumes "level (gw_lib gw) (gw_cl gw) s False = (Inr lv, s1)"
    and "grid (gw_cl gw) s1 False = (g, s2)"
    and "solar (gw_cl gw) s2 False = (so, s3)"
    and "battery (gw_cl gw) s3 False = (b, s4)"
    and "home (gw_cl gw) s4 False = (h, s5)"
    and "num_of lv = Some l"
    and "num_of (py_or g (PInt 0)) = Some g'" and "num_of (py_or h (PInt 0)) = Some h'"
    and "num_of (py_or so (PInt 0)) = Some so'" and "num_of (py_or b (PInt 0)) = Some b'"
  shows "(let line = fmt_2f g' @ '','' @ fmt_2f h' @ '','' @ fmt_2f so' @ '','' @ fmt_2f b' @ '','' @
                     fmt_2f l @ [CHR 0x0A]
          in fst (do_GET gw st s ''/csv'')
               = Inr (Api_response ''text/plain; charset=utf-8'' (PStr line) (Some line))) \<and>
         (num_of (py_or PNone (PInt 0)) = Some 0 \<and> fmt_2f 0 = ''0.00'') \<and>
         (\<exists>n. fmt_2f x = (if x < 0 then ''-'' else []) @ digits (n div 100) @
                  [CHR ''.'', digit_char (n div 10), digit_char n]) \<and>
         (digits k \<noteq> [] \<and> set (digits k) \<subseteq> set ''0123456789'' \<and>
          digit_char k \<in> set ''0123456789'')"
proof -
  have "csv_branch gw s =
     (csv_format (py_or g (PInt 0)) (py_or h (PInt 0)) (py_or so (PInt 0)) (py_or b (PInt 0)) lv, s5)"
    using assms(1-5) by (rule csv_branch_value)
  moreover have "csv_format (py_or g (PInt 0)) (py_or h (PInt 0)) (py_or so (PInt 0))
      (py_or b (PInt 0)) lv
    = Inr (fmt_2f g' @ '','' @ fmt_2f h' @ '','' @ fmt_2f so' @ '','' @ fmt_2f b' @ '','' @
           fmt_2f l @ [CHR 0x0A])"
    using assms(6-10) by (simp add: csv_format_def)
  ultimately have line: "(let line = fmt_2f g' @ '','' @ fmt_2f h' @ '','' @ fmt_2f so' @ '','' @
        fmt_2f b' @ '','' @ fmt_2f l @ [CHR 0x0A]
      in fst (do_GET gw st s ''/csv'')
           = Inr (Api_response ''text/plain; charset=utf-8'' (PStr line) (Some line)))"
    by (simp add: do_GET_def route_csv branch_def count_message_def Let_def)
  have zero: "num_of (py_or PNone (PInt 0)) = Some 0 \<and> fmt_2f 0 = ''0.00''"
    by (simp add: py_or_def fmt_2f_zero)
  show ?thesis
    by (rule conjI [OF line conjI [OF zero conjI [OF fmt_2f_shape digits_shape]]])
qed

lemma fmt_2f_examples:
  "fmt_2f 1234.567 = ''1234.57'' \<and> fmt_2f (- 25) = ''-25.00'' \<and> fmt_2f 47.5 = ''47.50''"
  by (simp add: fmt_2f_def round_half_even_def digits.simps digit_char_def)

lemma csv_endpoint_example:
  "fst (do_GET (stub_gateway (PDict [(''percentage'', PFloat 47.5)]) (PFloat 1234.567) ''cookie'')
          start_stats () ''/csv'')
     = Inr (Api_response ''text/plain; charset=utf-8''
              (PStr (''1234.57,1234.57,1234.57,1234.57,47.50'' @ [CHR 0x0A]))
              (Some (''1234.57,1234.57,1234.57,1234.57,47.50'' @ [CHR 0x0A]))) \<and>
   fst (do_GET (stub_gateway (PDict [(''percentage'', PFloat 47.5)]) PNone ''cookie'')
          start_stats () ''/csv'')
     = Inr (Api_response ''text/plain; charset=utf-8''
              (PStr (''0.00,0.00,0.00,0.00,47.50'' @ [CHR 0x0A]))
              (Some (''0.00,0.00,0.00,0.00,47.50'' @ [CHR 0x0A])))"
proof -
  have lv: "level stub_lib (fixed_client (PDict [(''percentage'', PFloat 47.5)]) w) () False
     = (Inr (PFloat 47.5), ())" for w
    by (simp add: level_def poll_def fixed_client_def level_of_def)
  have pw: "grid (fixed_client p w) () False = (w, ()) \<and> solar (fixed_client p w) () False = (w, ()) \<and>
      battery (fixed_client p w) () False = (w, ()) \<and> home (fixed_client p w) () False = (w, ())" for p w
    by (simp add: grid_def site_def solar_def battery_def home_def load_def fixed_client_def)
  from csv_endpoint [where gw = "stub_gateway (PDict [(''percentage'', PFloat 47.5)]) (PFloat 1234.567) ''cookie''"
      and s = "()" and lv = "PFloat 47.5" and l = "47.5" and g = "PFloat 1234.567" and h = "PFloat 1234.567"
      and so = "PFloat 1234.567" and b = "PFloat 1234.567" and g' = "1234.567" and h' = "1234.567"
      and so' = "1234.567" and b' = "1234.567" and st = start_stats, THEN conjunct1]
    lv pw
  have "fst (do_GET (stub_gateway (PDict [(''percentage'', PFloat 47.5)]) (PFloat 1234.567) ''cookie'')
          start_stats () ''/csv'')
     = Inr (Api_response ''text/plain; charset=utf-8''
              (PStr (''1234.57,1234.57,1234.57,1234.57,47.50'' @ [CHR 0x0A]))
              (Some (''1234.57,1234.57,1234.57,1234.57,47.50'' @ [CHR 0x0A])))"
    by (simp add: stub_gateway_def py_or_def Let_def fmt_2f_def round_half_even_def digits.simps
        digit_char_def)
  moreover
  from csv_endpoint [where gw = "stub_gateway (PDict [(''percentage'', PFloat 47.5)]) PNone ''cookie''"
      and s = "()" and lv = "PFloat 47.5" and l = "47.5" and g = PNone and h = PNone
      and so = PNone and b = PNone and g' = 0 and h' = 0 and so' = 0 and b' = 0
      and st = start_stats, THEN conjunct1]
    lv pw
  have "fst (do_GET (stub_gateway (PDict [(''percentage'', PFloat 47.5)]) PNone ''cookie'')
          start_stats () ''/csv'')
     = Inr (Api_response ''text/plain; charset=utf-8''
              (PStr (''0.00,0.00,0.00,0.00,47.50'' @ [CHR 0x0A]))
              (Some (''0.00,0.00,0.00,0.00,47.50'' @ [CHR 0x0A])))"
    by (simp add: stub_gateway_def py_or_def Let_def fmt_2f_def round_half_even_def digits.simps
        digit_char_def)
  ultimately show ?thesis by (rule conjI)
qed

text \<open>
  The battery level has no default: when the poll of the state of energy returns
  \<^verbatim>\<open>None\<close>, so does \<^verbatim>\<open>level\<close>, and the formatting raises \<^verbatim>\<open>TypeError\<close>.
\<close>

lemma csv_format_null_level: "csv_format g h so b PNone = Inl TypeError"
  by (simp add: csv_format_def split: option.splits)

lemma csv_null_level_raises:
  assumes "c_poll (gw_cl gw) s ''/api/system_status/soe'' False False False = (PNone, s1)"
  shows "fst (do_GET gw st s ''/csv'') = Inl TypeError"
proof -
  have "level (gw_lib gw) (gw_cl gw) s False = (Inr PNone, s1)"
    using assms by (simp add: level_def poll_def level_of_def)
  then have "fst (csv_branch gw s) = Inl TypeError"
    by (simp add: csv_branch_def csv_format_null_level split: prod.splits)
  then show ?thesis
    by (cases "csv_branch gw s") (simp add: do_GET_def route_csv branch_def)
qed

text \<open>
  C9: \<^verbatim>\<open>/csv\<close> should always answer with its five values. It does not when the battery
  level is missing. \<^verbatim>\<open>grid\<close>, \<^verbatim>\<open>solar\<close>, \<^verbatim>\<open>battery\<close> and \<^verbatim>\<open>home\<close> are read with
  \<^verbatim>\<open>or 0\<close>; \<^verbatim>\<open>batterylevel = pw.level()\<close> is not. When the poll of the state of energy
  returns \<^verbatim>\<open>None\<close>, or a payload without \<^verbatim>\<open>percentage\<close>, the level is \<^verbatim>\<open>None\<close>, the
  formatting raises \<^verbatim>\<open>TypeError\<close>, nothing is sent and no counter moves.
\<close>

theorem csv_null_level_unanswered:
  "do_GET (stub_gateway PNone (PFloat 1200) ''cookie'') start_stats () ''/csv''
     = (Inl TypeError, start_stats, ()) \<and>
   do_GET (stub_gateway (PDict []) (PFloat 1200) ''cookie'') start_stats () ''/csv''
     = (Inl TypeError, start_stats, ())"
  by (simp add: do_GET_def route_csv branch_def csv_branch_def level_def poll_def level_of_def
      grid_def site_def solar_def battery_def home_def load_def csv_format_def py_or_def
      stub_gateway_def fixed_client_def)

end
